theory Spec2Isabelle
  imports Main "HOL-Library.Char_ord" "HOL-Library.List_Lexorder" "HOL-Library.Sublist"
begin

section \<open>Strings, C strings and formatting\<close>

text \<open>
  A \<open>std::string\<close> is a sequence of bytes: \<^typ>\<open>string\<close>. A \<open>base::FilePath\<close> is
  treated as the string naming the file.
\<close>

type_synonym FilePath = string

definition CR :: char where
  "CR = CHR 0x0D"

definition LF :: char where
  "LF = CHR 0x0A"

definition DQUOTE :: char where
  "DQUOTE = CHR 0x22"

definition PERCENT :: char where
  "PERCENT = CHR 0x25"

definition NUL :: char where
  "NUL = CHR 0x00"

definition kCRLF :: string where
  "kCRLF = [CR, LF]"

definition kBoundaryCRLF :: string where
  "kBoundaryCRLF = [CR, LF, CR, LF]"

text \<open>
  \<open>s.c_str()\<close> read by a \<open>%s\<close> conversion of \<open>base::StringPrintf\<close>: a C string ends
  at its first NUL byte, so the bytes of a \<open>std::string\<close> from an embedded NUL on are
  not formatted.
\<close>

definition c_str :: "string \<Rightarrow> string" where
  "c_str s = takeWhile (\<lambda>c. c \<noteq> NUL) s"

text \<open>
  The conversion \<open>%02x\<close> of \<open>base::StringPrintf\<close>: the value in lowercase hexadecimal,
  padded with zeros on the left to a width of at least two.
\<close>

definition hex_digit :: "nat \<Rightarrow> char" where
  "hex_digit d = ''0123456789abcdef'' ! (d mod 16)"

function hex_digits :: "nat \<Rightarrow> string" where
  "hex_digits n = (if n < 16 then [hex_digit n] else hex_digits (n div 16) @ [hex_digit n])"
  by pat_completeness auto
termination
  by (relation "measure (\<lambda>n. n)") auto

declare hex_digits.simps [simp del]

definition printf_02x :: "nat \<Rightarrow> string" where
  "printf_02x n = replicate (2 - length (hex_digits n)) (CHR ''0'') @ hex_digits n"

section \<open>Boundary generation\<close>

text \<open>
  \<open>base::RandGenerator\<close> belongs to the base library; the value that its call in loop
  iteration \<open>index\<close> returns is the parameter \<open>random_value index\<close>. Its contract is a
  value below the range passed, here \<open>strlen(kCharacters)\<close>; indexing \<open>kCharacters\<close>
  beyond that is as undefined in the model as it is in the source.
\<close>

definition kCharacters :: string where
  "kCharacters = ''0123456789ABCDEFGHIJKLMNOPQRSTUVWXYZabcdefghijklmnopqrstuvwxyz''"

definition GenerateBoundaryString :: "(nat \<Rightarrow> nat) \<Rightarrow> string" where
  "GenerateBoundaryString random_value =
     foldl (\<lambda>boundary_string index. boundary_string @ [kCharacters ! random_value index])
       ''---MultipartBoundary-'' [0..<32]
     @ ''---''"

section \<open>Escaping\<close>

text \<open>
  The four escaped characters are below \<open>0x80\<close>, so their conversion to \<open>int\<close> for
  \<open>%02x\<close> is their byte value whatever the signedness of \<open>char\<close>.
\<close>

definition EncodeMIMEField_step :: "string \<Rightarrow> char \<Rightarrow> string" where
  "EncodeMIMEField_step encoded character =
     (if character = CR \<or> character = LF \<or> character = DQUOTE \<or> character = PERCENT
      then encoded @ (PERCENT # printf_02x (of_char character))
      else encoded @ [character])"

definition EncodeMIMEField :: "string \<Rightarrow> string" where
  "EncodeMIMEField name = foldl EncodeMIMEField_step [] name"

definition GetFormDataBoundary :: "string \<Rightarrow> string \<Rightarrow> string" where
  "GetFormDataBoundary boundary name =
     ''--'' @ c_str boundary @ kCRLF @ ''Content-Disposition: form-data; name='' @ [DQUOTE]
     @ c_str (EncodeMIMEField name) @ [DQUOTE]"

section \<open>Content type validation\<close>

datatype error = CheckFailed

definition safe_mime_char :: "char \<Rightarrow> bool" where
  "safe_mime_char c \<longleftrightarrow>
     (c \<ge> CHR ''a'' \<and> c \<le> CHR ''z'') \<or>
     (c \<ge> CHR ''A'' \<and> c \<le> CHR ''Z'') \<or>
     (c \<ge> CHR ''0'' \<and> c \<le> CHR ''9'') \<or>
     c = CHR ''/'' \<or>
     c = CHR ''.'' \<or>
     c = CHR ''_'' \<or>
     c = CHR ''+'' \<or>
     c = CHR ''-''"

text \<open>A failed \<open>CHECK\<close> ends the process: the error value \<^term>\<open>CheckFailed\<close>.\<close>

fun AssertSafeMIMEType :: "string \<Rightarrow> error + unit" where
  "AssertSafeMIMEType [] = Inr ()"
| "AssertSafeMIMEType (c # cs) =
     (if safe_mime_char c then AssertSafeMIMEType cs else Inl CheckFailed)"

section \<open>The builder\<close>

record FileAttachment =
  filename :: string
  path :: FilePath
  content_type :: string

text \<open>
  Modelled from the spec: the declarations of the members \<open>boundary_\<close>, \<open>form_data_\<close> and
  \<open>file_attachments_\<close> are in the header \<open>util/net/http_multipart_builder.h\<close>, which is
  not among the sources. The two collections map a key to at most one entry and are
  enumerated in a repeatable order; they are association lists here, kept in the order
  of the keys as an ordered map (\<open>std::map\<close>) enumerates them.
\<close>

record HTTPMultipartBuilder =
  boundary_m :: string
  form_data_m :: "(string \<times> string) list"
  file_attachments_m :: "(string \<times> FileAttachment) list"

text \<open>\<open>m.find(key)\<close> followed by \<open>m.erase(it)\<close> when the key was found.\<close>

fun map_erase :: "string \<Rightarrow> (string \<times> 'v) list \<Rightarrow> (string \<times> 'v) list" where
  "map_erase key [] = []"
| "map_erase key (p # ps) = (if fst p = key then ps else p # map_erase key ps)"

text \<open>\<open>m[key] = value\<close>: the entry of \<open>key\<close> is overwritten, or created at the key's place.\<close>

fun map_assign :: "string \<Rightarrow> 'v \<Rightarrow> (string \<times> 'v) list \<Rightarrow> (string \<times> 'v) list" where
  "map_assign key v [] = [(key, v)]"
| "map_assign key v (p # ps) =
     (if fst p = key then (key, v) # ps
      else if key < fst p then (key, v) # p # ps
      else p # map_assign key v ps)"

definition HTTPMultipartBuilder_new :: "(nat \<Rightarrow> nat) \<Rightarrow> HTTPMultipartBuilder" where
  "HTTPMultipartBuilder_new random_value =
     \<lparr>boundary_m = GenerateBoundaryString random_value, form_data_m = [], file_attachments_m = []\<rparr>"

definition boundary :: "HTTPMultipartBuilder \<Rightarrow> string" where
  "boundary b = boundary_m b"

definition EraseKey :: "string \<Rightarrow> HTTPMultipartBuilder \<Rightarrow> HTTPMultipartBuilder" where
  "EraseKey key b =
     b\<lparr>form_data_m := map_erase key (form_data_m b),
       file_attachments_m := map_erase key (file_attachments_m b)\<rparr>"

definition SetFormData :: "string \<Rightarrow> string \<Rightarrow> HTTPMultipartBuilder \<Rightarrow> HTTPMultipartBuilder" where
  "SetFormData key val b =
     (let b1 = EraseKey key b
      in b1\<lparr>form_data_m := map_assign key val (form_data_m b1)\<rparr>)"

definition SetFileAttachment ::
  "string \<Rightarrow> string \<Rightarrow> FilePath \<Rightarrow> string \<Rightarrow> HTTPMultipartBuilder \<Rightarrow>
     error + HTTPMultipartBuilder" where
  "SetFileAttachment key upload_file_name file_path ctype b =
     (let b1 = EraseKey upload_file_name b;
          attachment = \<lparr>filename = EncodeMIMEField upload_file_name, path = file_path,
                        content_type = []\<rparr>
      in if ctype = []
         then Inr (b1\<lparr>file_attachments_m :=
                map_assign key (attachment\<lparr>content_type := ''application/octet-stream''\<rparr>)
                  (file_attachments_m b1)\<rparr>)
         else (case AssertSafeMIMEType ctype of
                 Inl e \<Rightarrow> Inl e
               | Inr _ \<Rightarrow>
                   Inr (b1\<lparr>file_attachments_m :=
                     map_assign key (attachment\<lparr>content_type := ctype\<rparr>)
                       (file_attachments_m b1)\<rparr>)))"

section \<open>Stream composition\<close>

datatype HTTPBodyStream =
    StringHTTPBodyStream string
  | FileHTTPBodyStream FilePath
  | CompositeHTTPBodyStream "HTTPBodyStream list"

definition form_data_stream :: "string \<Rightarrow> string \<times> string \<Rightarrow> HTTPBodyStream" where
  "form_data_stream bd pair =
     StringHTTPBodyStream (GetFormDataBoundary bd (fst pair) @ kBoundaryCRLF @ snd pair @ kCRLF)"

definition attachment_header :: "string \<Rightarrow> string \<times> FileAttachment \<Rightarrow> string" where
  "attachment_header bd pair =
     (let attachment = snd pair
      in GetFormDataBoundary bd (fst pair)
         @ (''; filename='' @ [DQUOTE] @ c_str (filename attachment) @ [DQUOTE] @ kCRLF)
         @ (''Content-Type: '' @ c_str (content_type attachment) @ kBoundaryCRLF))"

text \<open>
  \<open>GetBodyStream\<close> is not declared \<open>const\<close>: it returns the stream together with the
  builder as the call leaves it.
\<close>

definition GetBodyStream :: "HTTPMultipartBuilder \<Rightarrow> HTTPBodyStream \<times> HTTPMultipartBuilder" where
  "GetBodyStream b =
     (let streams = [];
          streams = foldl (\<lambda>streams pair. streams @ [form_data_stream (boundary b) pair])
                      streams (form_data_m b);
          streams = foldl (\<lambda>streams pair.
                        streams @ [StringHTTPBodyStream (attachment_header (boundary b) pair),
                                   FileHTTPBodyStream (path (snd pair)),
                                   StringHTTPBodyStream kCRLF])
                      streams (file_attachments_m b);
          streams = streams @ [StringHTTPBodyStream (''--'' @ boundary b @ ''--'' @ kCRLF)]
      in (CompositeHTTPBodyStream streams, b))"

text \<open>
  Modelled from the spec: the stream classes are defined in \<open>util/net/http_body.cc\<close>,
  which is not among the sources. A string stream yields its string, a file stream the
  bytes of its file (\<open>file_bytes\<close> gives them for a path), and the composite stream
  reads each of its parts to exhaustion before advancing to the next.
\<close>

fun stream_bytes :: "(FilePath \<Rightarrow> string) \<Rightarrow> HTTPBodyStream \<Rightarrow> string" where
  "stream_bytes file_bytes (StringHTTPBodyStream s) = s"
| "stream_bytes file_bytes (FileHTTPBodyStream p) = file_bytes p"
| "stream_bytes file_bytes (CompositeHTTPBodyStream ss) =
     concat (map (stream_bytes file_bytes) ss)"

text \<open>The three streams that the second loop of \<open>GetBodyStream\<close> appends for one attachment.\<close>

definition attachment_streams :: "string \<Rightarrow> string \<times> FileAttachment \<Rightarrow> HTTPBodyStream list" where
  "attachment_streams bd pair =
     [StringHTTPBodyStream (attachment_header bd pair), FileHTTPBodyStream (path (snd pair)),
      StringHTTPBodyStream kCRLF]"

section \<open>Definitions that follow the specification\<close>

text \<open>
  The escaping rule in the specification's words: carriage return, line feed, double
  quote and percent are each replaced by a percent sign and the two hexadecimal digits of
  the byte; every other byte stands for itself.
\<close>

definition escape_char :: "char \<Rightarrow> string" where
  "escape_char c =
     (if c = CR then ''%0d'' else if c = LF then ''%0a''
      else if c = DQUOTE then ''%22'' else if c = PERCENT then ''%25'' else [c])"

definition spec_escape :: "string \<Rightarrow> string" where
  "spec_escape s = concat (map escape_char s)"

text \<open>
  A text has no unescaped occurrence of the four characters when it holds no carriage
  return, line feed or double quote, and each percent sign in it opens one of the four
  escape sequences.
\<close>

function unescaped_free :: "string \<Rightarrow> bool" where
  "unescaped_free [] = True"
| "unescaped_free (c # cs) =
     (if c = PERCENT
      then take 2 cs \<in> {''0d'', ''0a'', ''22'', ''25''} \<and> unescaped_free (drop 2 cs)
      else c \<noteq> CR \<and> c \<noteq> LF \<and> c \<noteq> DQUOTE \<and> unescaped_free cs)"
  by pat_completeness auto
termination
  by (relation "measure length") auto

text \<open>The character set \<open>[A-Za-z0-9/._+-]\<close> of the specification, written out.\<close>

definition safe_alphabet :: string where
  "safe_alphabet = ''ABCDEFGHIJKLMNOPQRSTUVWXYZabcdefghijklmnopqrstuvwxyz0123456789/._+-''"

text \<open>The alphanumeric characters \<open>[0-9A-Za-z]\<close>.\<close>

definition alphanumeric :: "char \<Rightarrow> bool" where
  "alphanumeric c \<longleftrightarrow>
     (CHR ''0'' \<le> c \<and> c \<le> CHR ''9'') \<or> (CHR ''A'' \<le> c \<and> c \<le> CHR ''Z'') \<or>
     (CHR ''a'' \<le> c \<and> c \<le> CHR ''z'')"

text \<open>
  The invariant of the builder. Each collection holds a key at most once, in key order;
  the boundary holds no NUL byte; a stored file name is free of unescaped characters and
  a stored content type is neither empty nor holds a NUL byte. The constructor
  establishes the invariant and both setters keep it, so it holds in every state that a
  builder reaches.
\<close>

definition map_ok :: "(string \<times> 'v) list \<Rightarrow> bool" where
  "map_ok m \<longleftrightarrow> sorted_wrt (<) (map fst m)"

definition attachment_ok :: "FileAttachment \<Rightarrow> bool" where
  "attachment_ok a \<longleftrightarrow>
     unescaped_free (filename a) \<and> NUL \<notin> set (content_type a) \<and> content_type a \<noteq> []"

definition builder_ok :: "HTTPMultipartBuilder \<Rightarrow> bool" where
  "builder_ok b \<longleftrightarrow>
     map_ok (form_data_m b) \<and> map_ok (file_attachments_m b) \<and>
     NUL \<notin> set (boundary_m b) \<and>
     (\<forall>p \<in> set (file_attachments_m b). attachment_ok (snd p))"

definition keys_of :: "(string \<times> 'v) list \<Rightarrow> string set" where
  "keys_of m = fst ` set m"

definition entries_under :: "string \<Rightarrow> (string \<times> 'v) list \<Rightarrow> nat" where
  "entries_under key m = length (filter (\<lambda>p. fst p = key) m)"

text \<open>
  The states of a builder: the constructed one, with draws in range, and those that the
  setters and \<open>GetBodyStream\<close> leave behind.
\<close>

inductive reachable :: "HTTPMultipartBuilder \<Rightarrow> bool" where
  constructed: "\<forall>index<32. random_value index < 62 \<Longrightarrow>
     reachable (HTTPMultipartBuilder_new random_value)"
| form_data_set: "reachable b \<Longrightarrow> reachable (SetFormData key val b)"
| file_attachment_set: "reachable b \<Longrightarrow>
     SetFileAttachment key upload_file_name file_path ctype b = Inr b' \<Longrightarrow> reachable b'"
| body_stream_got: "reachable b \<Longrightarrow> reachable (snd (GetBodyStream b))"

text \<open>The parts that a composite stream is made of.\<close>

fun segments :: "HTTPBodyStream \<Rightarrow> HTTPBodyStream list" where
  "segments (CompositeHTTPBodyStream ss) = ss"
| "segments s = [s]"

text \<open>
  A part segment opens with the delimiter line \<open>--{boundary}\r\n\<close>; the closing segment
  is \<open>--{boundary}--\r\n\<close>.
\<close>

fun is_part_segment :: "string \<Rightarrow> HTTPBodyStream \<Rightarrow> bool" where
  "is_part_segment bd (StringHTTPBodyStream t) = prefix (''--'' @ bd @ kCRLF) t"
| "is_part_segment bd s = False"

definition is_closing_segment :: "string \<Rightarrow> HTTPBodyStream \<Rightarrow> bool" where
  "is_closing_segment bd s \<longleftrightarrow> s = StringHTTPBodyStream (''--'' @ bd @ ''--'' @ kCRLF)"

text \<open>The byte layout of the body as the specification lays it out.\<close>

definition spec_field_part :: "string \<Rightarrow> string \<times> string \<Rightarrow> string" where
  "spec_field_part bd p =
     ''--'' @ bd @ kCRLF @ ''Content-Disposition: form-data; name='' @ [DQUOTE]
     @ spec_escape (fst p) @ [DQUOTE] @ kCRLF @ kCRLF @ snd p @ kCRLF"

definition spec_attachment_part ::
  "(FilePath \<Rightarrow> string) \<Rightarrow> string \<Rightarrow> string \<times> FileAttachment \<Rightarrow> string" where
  "spec_attachment_part file_bytes bd p =
     ''--'' @ bd @ kCRLF @ ''Content-Disposition: form-data; name='' @ [DQUOTE]
     @ spec_escape (fst p) @ [DQUOTE] @ ''; filename='' @ [DQUOTE] @ filename (snd p) @ [DQUOTE]
     @ kCRLF @ ''Content-Type: '' @ content_type (snd p) @ kCRLF @ kCRLF
     @ file_bytes (path (snd p)) @ kCRLF"

definition spec_body :: "(FilePath \<Rightarrow> string) \<Rightarrow> HTTPMultipartBuilder \<Rightarrow> string" where
  "spec_body file_bytes b =
     concat (map (spec_field_part (boundary_m b)) (form_data_m b))
     @ concat (map (spec_attachment_part file_bytes (boundary_m b)) (file_attachments_m b))
     @ ''--'' @ boundary_m b @ ''--'' @ kCRLF"

definition nul_free_names :: "HTTPMultipartBuilder \<Rightarrow> bool" where
  "nul_free_names b \<longleftrightarrow>
     (\<forall>p \<in> set (form_data_m b). NUL \<notin> set (fst p)) \<and>
     (\<forall>p \<in> set (file_attachments_m b). NUL \<notin> set (fst p) \<and> NUL \<notin> set (filename (snd p)))"

section \<open>Facts about escaping\<close>

lemma printf_02x_escapes:
  "printf_02x (of_char CR) = ''0d''" "printf_02x (of_char LF) = ''0a''"
  "printf_02x (of_char DQUOTE) = ''22''" "printf_02x (of_char PERCENT) = ''25''"
  by (simp_all add: printf_02x_def hex_digits.simps hex_digit_def CR_def LF_def DQUOTE_def
      PERCENT_def)

lemma special_distinct:
  "CR \<noteq> LF" "CR \<noteq> DQUOTE" "CR \<noteq> PERCENT" "LF \<noteq> DQUOTE" "LF \<noteq> PERCENT" "DQUOTE \<noteq> PERCENT"
  "CR \<noteq> NUL" "LF \<noteq> NUL" "DQUOTE \<noteq> NUL" "PERCENT \<noteq> NUL"
  by (simp_all add: CR_def LF_def DQUOTE_def PERCENT_def NUL_def)

lemma EncodeMIMEField_step_escape:
  "EncodeMIMEField_step encoded c = encoded @ escape_char c"
  using printf_02x_escapes
  by (simp add: EncodeMIMEField_step_def escape_char_def CR_def LF_def DQUOTE_def PERCENT_def)

lemma foldl_EncodeMIMEField_step:
  "foldl EncodeMIMEField_step encoded s = encoded @ spec_escape s"
  by (induction s arbitrary: encoded) (simp_all add: spec_escape_def EncodeMIMEField_step_escape)

lemma EncodeMIMEField_spec: "EncodeMIMEField s = spec_escape s"
  by (simp add: EncodeMIMEField_def foldl_EncodeMIMEField_step)

lemma spec_escape_Cons: "spec_escape (c # s) = escape_char c @ spec_escape s"
  by (simp add: spec_escape_def)

lemma unescaped_free_escape:
  "unescaped_free (escape_char c @ r) = unescaped_free r"
  using special_distinct by (auto simp add: escape_char_def PERCENT_def)

lemma unescaped_free_spec: "unescaped_free (spec_escape s)"
  by (induction s) (simp_all add: spec_escape_def unescaped_free_escape)

lemma c_str_escape: "c_str (spec_escape s) = spec_escape (c_str s)"
proof (induction s)
  case Nil
  show ?case by (simp add: spec_escape_def c_str_def)
next
  case (Cons c s)
  then show ?case
    using special_distinct
    by (auto simp add: spec_escape_def c_str_def escape_char_def PERCENT_def NUL_def)
qed

lemma set_spec_escape:
  "CR \<notin> set (spec_escape s) \<and> LF \<notin> set (spec_escape s) \<and> DQUOTE \<notin> set (spec_escape s)"
proof (induction s)
  case Nil
  show ?case by (simp add: spec_escape_def)
next
  case (Cons c s)
  then show ?case
    using special_distinct
    by (auto simp add: spec_escape_Cons escape_char_def PERCENT_def CR_def LF_def DQUOTE_def
        split: if_splits)
qed

lemma escape_char_nonempty: "escape_char c \<noteq> []"
  by (simp add: escape_char_def)

lemma escape_char_inj: "escape_char c @ r = escape_char d @ t \<Longrightarrow> c = d \<and> r = t"
  using special_distinct
  by (auto simp add: escape_char_def PERCENT_def CR_def LF_def DQUOTE_def split: if_splits)

lemma spec_escape_inj: "spec_escape s = spec_escape t \<Longrightarrow> s = t"
proof (induction s arbitrary: t)
  case Nil
  show ?case
  proof (cases t)
    case (Cons d t')
    with Nil have "escape_char d @ spec_escape t' = []"
      by (simp add: spec_escape_def)
    then show ?thesis by (simp add: escape_char_nonempty)
  qed simp
next
  case (Cons c s)
  show ?case
  proof (cases t)
    case Nil
    with Cons.prems have "escape_char c @ spec_escape s = []"
      by (simp add: spec_escape_def)
    then show ?thesis by (simp add: escape_char_nonempty)
  next
    case (Cons d t')
    with Cons.prems have "escape_char c @ spec_escape s = escape_char d @ spec_escape t'"
      by (simp only: spec_escape_Cons)
    then have cd: "c = d \<and> spec_escape s = spec_escape t'" by (rule escape_char_inj)
    then have "s = t'" using Cons.IH by blast
    with cd Cons show ?thesis by blast
  qed
qed

section \<open>Facts about the content type check\<close>

lemma char_eq_code: "c = d \<longleftrightarrow> (of_char c :: nat) = of_char d"
  by simp

lemma safe_mime_char_iff: "safe_mime_char c \<longleftrightarrow> c \<in> set safe_alphabet"
proof -
  define n :: nat where "n = of_char c"
  have "safe_mime_char c \<longleftrightarrow>
      (97 \<le> n \<and> n \<le> 122) \<or> (65 \<le> n \<and> n \<le> 90) \<or> (48 \<le> n \<and> n \<le> 57) \<or>
      n = 47 \<or> n = 46 \<or> n = 95 \<or> n = 43 \<or> n = 45"
    unfolding safe_mime_char_def less_eq_char_def char_eq_code [of c] n_def by simp
  also have "\<dots> \<longleftrightarrow> n \<in> of_char ` set safe_alphabet"
    unfolding safe_alphabet_def by (simp del: of_char_eq_iff) arith
  also have "\<dots> \<longleftrightarrow> c \<in> set safe_alphabet"
    unfolding n_def by (simp only: inj_image_mem_iff [OF inj_of_char])
  finally show ?thesis .
qed

lemma AssertSafeMIMEType_ok: "AssertSafeMIMEType s = Inr () \<longleftrightarrow> (\<forall>c \<in> set s. safe_mime_char c)"
  by (induction s) auto

lemma AssertSafeMIMEType_fail:
  "AssertSafeMIMEType s = Inl CheckFailed \<longleftrightarrow> (\<exists>c \<in> set s. \<not> safe_mime_char c)"
  by (induction s) auto

section \<open>Facts about the collections\<close>

lemma keys_of_simps [simp]: "keys_of [] = {}" "keys_of (p # ps) = insert (fst p) (keys_of ps)"
  by (simp_all add: keys_of_def)

lemma map_ok_simps [simp]:
  "map_ok []" "map_ok (p # ps) \<longleftrightarrow> (\<forall>k \<in> keys_of ps. fst p < k) \<and> map_ok ps"
  by (auto simp add: map_ok_def keys_of_def)

lemma keys_of_map_erase_subset: "keys_of (map_erase key m) \<subseteq> keys_of m"
  by (induction m) auto

lemma map_ok_map_erase: "map_ok m \<Longrightarrow> map_ok (map_erase key m)"
  using keys_of_map_erase_subset by (induction m) fastforce+

lemma keys_of_map_erase: "map_ok m \<Longrightarrow> keys_of (map_erase key m) = keys_of m - {key}"
  by (induction m) auto

lemma set_map_erase_subset: "set (map_erase key m) \<subseteq> set m"
  by (induction m) auto

lemma map_of_map_erase_other: "k \<noteq> key \<Longrightarrow> map_of (map_erase key m) k = map_of m k"
  by (induction m) auto

lemma keys_of_map_assign: "keys_of (map_assign key v m) = insert key (keys_of m)"
  by (induction m) auto

lemma map_ok_map_assign: "map_ok m \<Longrightarrow> map_ok (map_assign key v m)"
  by (induction m) (auto simp add: keys_of_map_assign)

lemma map_of_map_assign_same: "map_of (map_assign key v m) key = Some v"
  by (induction m) auto

lemma map_of_map_assign_other: "k \<noteq> key \<Longrightarrow> map_of (map_assign key v m) k = map_of m k"
  by (induction m) auto

lemma set_map_assign_subset: "set (map_assign key v m) \<subseteq> insert (key, v) (set m)"
  by (induction m) auto

lemma entries_under_map_ok:
  "map_ok m \<Longrightarrow> entries_under key m = (if key \<in> keys_of m then 1 else 0)"
  by (induction m) (auto simp add: entries_under_def)

lemma map_of_keys_of: "map_of m k = None \<longleftrightarrow> k \<notin> keys_of m"
  by (simp add: keys_of_def map_of_eq_None_iff)

section \<open>Facts about the builder\<close>

lemma foldl_snoc_map: "foldl (\<lambda>acc x. acc @ [f x]) acc xs = acc @ map f xs"
  by (induction xs arbitrary: acc) simp_all

lemma foldl_append_concat: "foldl (\<lambda>acc x. acc @ f x) acc xs = acc @ concat (map f xs)"
  by (induction xs arbitrary: acc) simp_all

lemma GenerateBoundaryString_eq:
  "GenerateBoundaryString rv =
     ''---MultipartBoundary-'' @ map (\<lambda>index. kCharacters ! rv index) [0..<32] @ ''---''"
  unfolding GenerateBoundaryString_def foldl_snoc_map by simp

lemma length_kCharacters: "length kCharacters = 62"
  by (simp add: kCharacters_def)

lemma distinct_kCharacters: "distinct kCharacters"
  by (simp add: kCharacters_def)

lemma NUL_notin_kCharacters: "NUL \<notin> set kCharacters"
  by (simp add: kCharacters_def NUL_def)

lemma NUL_notin_boundary:
  assumes "\<forall>i<32. rv i < 62"
  shows "NUL \<notin> set (GenerateBoundaryString rv)"
proof -
  have "kCharacters ! rv i \<in> set kCharacters" if "i < 32" for i
    using assms that by (simp add: length_kCharacters)
  then have mid: "set (map (\<lambda>index. kCharacters ! rv index) [0..<32]) \<subseteq> set kCharacters"
    by auto
  have ends: "NUL \<notin> set ''---MultipartBoundary-''" "NUL \<notin> set ''---''"
    by (simp_all add: NUL_def)
  have "set (GenerateBoundaryString rv) \<subseteq>
      set ''---MultipartBoundary-'' \<union> set kCharacters \<union> set ''---''"
    using mid unfolding GenerateBoundaryString_eq set_append by blast
  then show ?thesis
    using ends NUL_notin_kCharacters by blast
qed

lemma builder_ok_new:
  "\<forall>i<32. rv i < 62 \<Longrightarrow> builder_ok (HTTPMultipartBuilder_new rv)"
  by (simp add: builder_ok_def HTTPMultipartBuilder_new_def NUL_notin_boundary)

lemma builder_ok_EraseKey: "builder_ok b \<Longrightarrow> builder_ok (EraseKey key b)"
  using set_map_erase_subset [of key "file_attachments_m b"]
  by (auto simp add: builder_ok_def EraseKey_def map_ok_map_erase)

lemma builder_ok_SetFormData: "builder_ok b \<Longrightarrow> builder_ok (SetFormData key val b)"
  using builder_ok_EraseKey [of b key]
  by (simp add: SetFormData_def Let_def builder_ok_def map_ok_map_assign)

lemma not_safe_NUL: "\<not> safe_mime_char NUL"
  by (simp add: safe_mime_char_iff safe_alphabet_def NUL_def)

lemma SetFileAttachment_Inr:
  "SetFileAttachment key u p ct b = Inr b' \<longleftrightarrow>
     (\<forall>c \<in> set ct. safe_mime_char c) \<and>
     b' = (EraseKey u b)\<lparr>file_attachments_m :=
            map_assign key \<lparr>filename = EncodeMIMEField u, path = p,
                            content_type = (if ct = [] then ''application/octet-stream'' else ct)\<rparr>
              (file_attachments_m (EraseKey u b))\<rparr>"
  using AssertSafeMIMEType_ok [of ct]
  by (auto simp add: SetFileAttachment_def Let_def split: sum.splits)

lemma SetFileAttachment_Inl:
  "SetFileAttachment key u p ct b = Inl e \<longleftrightarrow> (\<exists>c \<in> set ct. \<not> safe_mime_char c)"
  using AssertSafeMIMEType_fail [of ct]
  by (cases e) (auto simp add: SetFileAttachment_def Let_def split: sum.splits)

lemma attachment_ok_new:
  assumes "\<forall>c \<in> set ct. safe_mime_char c"
  shows "attachment_ok \<lparr>filename = EncodeMIMEField u, path = p,
           content_type = (if ct = [] then ''application/octet-stream'' else ct)\<rparr>"
proof -
  have "NUL \<notin> set ct" using assms not_safe_NUL by blast
  then show ?thesis
    by (simp add: attachment_ok_def EncodeMIMEField_spec unescaped_free_spec NUL_def)
qed

lemma builder_ok_SetFileAttachment:
  assumes "builder_ok b" and "SetFileAttachment key u p ct b = Inr b'"
  shows "builder_ok b'"
proof -
  let ?a = "\<lparr>filename = EncodeMIMEField u, path = p,
              content_type = (if ct = [] then ''application/octet-stream'' else ct)\<rparr>"
  let ?b1 = "EraseKey u b"
  from assms(2) have safe: "\<forall>c \<in> set ct. safe_mime_char c"
    and b': "b' = ?b1\<lparr>file_attachments_m := map_assign key ?a (file_attachments_m ?b1)\<rparr>"
    by (simp_all add: SetFileAttachment_Inr)
  have ok1: "builder_ok ?b1" using assms(1) by (rule builder_ok_EraseKey)
  have "attachment_ok (snd q)" if "q \<in> set (map_assign key ?a (file_attachments_m ?b1))" for q
  proof -
    from that set_map_assign_subset [of key ?a "file_attachments_m ?b1"]
    have "q = (key, ?a) \<or> q \<in> set (file_attachments_m ?b1)" by blast
    then show ?thesis
      using attachment_ok_new [OF safe, of u p] ok1 by (auto simp add: builder_ok_def)
  qed
  then show ?thesis
    using ok1 unfolding b' by (simp add: builder_ok_def map_ok_map_assign)
qed

lemma GetBodyStream_eq:
  "GetBodyStream b =
     (CompositeHTTPBodyStream
        (map (form_data_stream (boundary b)) (form_data_m b)
         @ concat (map (attachment_streams (boundary b)) (file_attachments_m b))
         @ [StringHTTPBodyStream (''--'' @ boundary b @ ''--'' @ kCRLF)]), b)"
proof -
  have "foldl (\<lambda>streams pair.
            streams @ [StringHTTPBodyStream (attachment_header (boundary b) pair),
                       FileHTTPBodyStream (path (snd pair)), StringHTTPBodyStream kCRLF])
          acc xs = acc @ concat (map (attachment_streams (boundary b)) xs)" for acc xs
    using foldl_append_concat [of "attachment_streams (boundary b)" acc xs]
    by (simp add: attachment_streams_def)
  then show ?thesis
    by (simp add: GetBodyStream_def Let_def foldl_snoc_map)
qed

lemma reachable_builder_ok: "reachable b \<Longrightarrow> builder_ok b"
proof (induction rule: reachable.induct)
  case (constructed random_value)
  then show ?case by (rule builder_ok_new)
next
  case (form_data_set b key val)
  then show ?case by (simp add: builder_ok_SetFormData)
next
  case (file_attachment_set b key upload_file_name file_path ctype b')
  then show ?case using builder_ok_SetFileAttachment by blast
next
  case (body_stream_got b)
  then show ?case by (simp add: GetBodyStream_eq)
qed

section \<open>Facts about the byte layout\<close>

lemma c_str_id: "NUL \<notin> set s \<Longrightarrow> c_str s = s"
  by (auto simp add: c_str_def takeWhile_eq_all_conv)

lemma c_str_EncodeMIMEField: "NUL \<notin> set s \<Longrightarrow> c_str (EncodeMIMEField s) = spec_escape s"
  by (simp add: EncodeMIMEField_spec c_str_escape c_str_id)

lemma kBoundaryCRLF_eq: "kBoundaryCRLF = kCRLF @ kCRLF"
  by (simp add: kBoundaryCRLF_def kCRLF_def)

lemma GetFormDataBoundary_spec:
  "NUL \<notin> set bd \<Longrightarrow> NUL \<notin> set name \<Longrightarrow>
   GetFormDataBoundary bd name =
     ''--'' @ bd @ kCRLF @ ''Content-Disposition: form-data; name='' @ [DQUOTE]
     @ spec_escape name @ [DQUOTE]"
  by (simp add: GetFormDataBoundary_def c_str_id c_str_EncodeMIMEField)

lemma form_data_stream_bytes:
  "NUL \<notin> set bd \<Longrightarrow> NUL \<notin> set (fst p) \<Longrightarrow>
   stream_bytes fb (form_data_stream bd p) = spec_field_part bd p"
  by (simp add: form_data_stream_def spec_field_part_def GetFormDataBoundary_spec kBoundaryCRLF_eq)

lemma attachment_streams_bytes:
  "NUL \<notin> set bd \<Longrightarrow> NUL \<notin> set (fst p) \<Longrightarrow> NUL \<notin> set (filename (snd p)) \<Longrightarrow>
   NUL \<notin> set (content_type (snd p)) \<Longrightarrow>
   concat (map (stream_bytes fb) (attachment_streams bd p)) = spec_attachment_part fb bd p"
  by (simp add: attachment_streams_def attachment_header_def Let_def spec_attachment_part_def
      GetFormDataBoundary_spec kBoundaryCRLF_eq c_str_id)

lemma concat_map_concat:
  "concat (map f (concat (map h ys))) = concat (map (\<lambda>y. concat (map f (h y))) ys)"
  by (induction ys) simp_all

lemma stream_bytes_GetBodyStream:
  "stream_bytes fb (fst (GetBodyStream b)) =
     concat (map (\<lambda>p. stream_bytes fb (form_data_stream (boundary_m b) p)) (form_data_m b))
     @ concat (map (\<lambda>p. concat (map (stream_bytes fb) (attachment_streams (boundary_m b) p)))
         (file_attachments_m b))
     @ ''--'' @ boundary_m b @ ''--'' @ kCRLF"
  by (simp add: GetBodyStream_eq boundary_def concat_map_concat comp_def)

lemma upt_32:
  "[0..<32] = [0, 1, 2, 3, 4, 5, 6, 7, 8, 9, 10, 11, 12, 13, 14, 15, 16, 17, 18, 19, 20, 21,
     22, 23, 24, 25, 26, 27, 28, 29, 30, 31 :: nat]"
  by code_simp

lemma boundary_zero:
  "GenerateBoundaryString (\<lambda>i. 0) = ''---MultipartBoundary-00000000000000000000000000000000---''"
  by (simp add: GenerateBoundaryString_eq kCharacters_def upt_32)

lemma boundary_ident:
  "GenerateBoundaryString (\<lambda>i. i) = ''---MultipartBoundary-0123456789ABCDEFGHIJKLMNOPQRSTUV---''"
  by (simp add: GenerateBoundaryString_eq kCharacters_def upt_32)

section \<open>Further facts about the operations\<close>

lemma kCharacters_alphanumeric: "c \<in> set kCharacters \<longleftrightarrow> alphanumeric c"
proof -
  define n :: nat where "n = of_char c"
  have "alphanumeric c \<longleftrightarrow>
      (48 \<le> n \<and> n \<le> 57) \<or> (65 \<le> n \<and> n \<le> 90) \<or> (97 \<le> n \<and> n \<le> 122)"
    unfolding alphanumeric_def less_eq_char_def n_def by simp
  also have "\<dots> \<longleftrightarrow> n \<in> of_char ` set kCharacters"
    unfolding kCharacters_def by (simp del: of_char_eq_iff) arith
  also have "\<dots> \<longleftrightarrow> c \<in> set kCharacters"
    unfolding n_def by (simp only: inj_image_mem_iff [OF inj_of_char])
  finally show ?thesis by simp
qed

lemma boundary_m_SetFormData: "boundary_m (SetFormData key val b) = boundary_m b"
  by (simp add: SetFormData_def EraseKey_def Let_def)

lemma boundary_m_SetFileAttachment:
  "SetFileAttachment key u p ct b = Inr b' \<Longrightarrow> boundary_m b' = boundary_m b"
  by (simp add: SetFileAttachment_Inr EraseKey_def)

lemma keys_of_EraseKey:
  "builder_ok b \<Longrightarrow>
   key \<notin> keys_of (form_data_m (EraseKey key b)) \<and> key \<notin> keys_of (file_attachments_m (EraseKey key b))"
  by (simp add: EraseKey_def builder_ok_def keys_of_map_erase)

lemma segments_GetBodyStream:
  "segments (fst (GetBodyStream b)) =
     map (form_data_stream (boundary_m b)) (form_data_m b)
     @ concat (map (attachment_streams (boundary_m b)) (file_attachments_m b))
     @ [StringHTTPBodyStream (''--'' @ boundary_m b @ ''--'' @ kCRLF)]"
  by (simp add: GetBodyStream_eq boundary_def)

lemma is_part_form_data_stream:
  "NUL \<notin> set bd \<Longrightarrow> is_part_segment bd (form_data_stream bd p)"
  by (simp add: form_data_stream_def GetFormDataBoundary_def c_str_id)

lemma not_closing_form_data_stream:
  "NUL \<notin> set bd \<Longrightarrow> \<not> is_closing_segment bd (form_data_stream bd p)"
  by (simp add: form_data_stream_def GetFormDataBoundary_def c_str_id is_closing_segment_def
      kCRLF_def CR_def)

lemma filter_part_attachment_streams:
  "NUL \<notin> set bd \<Longrightarrow>
   filter (is_part_segment bd) (attachment_streams bd p)
     = [StringHTTPBodyStream (attachment_header bd p)]"
  by (simp add: attachment_streams_def attachment_header_def Let_def GetFormDataBoundary_def
      c_str_id kCRLF_def CR_def)

lemma filter_closing_attachment_streams:
  "NUL \<notin> set bd \<Longrightarrow> filter (is_closing_segment bd) (attachment_streams bd p) = []"
  by (simp add: attachment_streams_def attachment_header_def Let_def GetFormDataBoundary_def
      c_str_id is_closing_segment_def kCRLF_def CR_def)

lemma not_part_closing:
  "\<not> is_part_segment bd (StringHTTPBodyStream (''--'' @ bd @ ''--'' @ kCRLF))"
  by (simp add: kCRLF_def CR_def)

lemma length_filter_concat:
  "(\<And>y. y \<in> set ys \<Longrightarrow> length (filter P (h y)) = n) \<Longrightarrow>
   length (filter P (concat (map h ys))) = n * length ys"
  by (induction ys) simp_all

lemma EncodeMIMEField_append:
  "EncodeMIMEField (s @ t) = EncodeMIMEField s @ EncodeMIMEField t"
  by (simp add: EncodeMIMEField_spec spec_escape_def)

lemma EncodeMIMEField_single: "EncodeMIMEField [c] = escape_char c"
  by (simp add: EncodeMIMEField_spec spec_escape_def)

lemma emitted_name_clean:
  "unescaped_free (c_str (EncodeMIMEField s))
   \<and> CR \<notin> set (c_str (EncodeMIMEField s)) \<and> LF \<notin> set (c_str (EncodeMIMEField s))
   \<and> DQUOTE \<notin> set (c_str (EncodeMIMEField s))"
  using set_spec_escape [of "c_str s"]
  by (simp add: EncodeMIMEField_spec c_str_escape unescaped_free_spec)

lemma SetFileAttachment_stored:
  "SetFileAttachment key u p ct b = Inr b' \<Longrightarrow>
   map_of (file_attachments_m b') key
     = Some \<lparr>filename = EncodeMIMEField u, path = p,
             content_type = (if ct = [] then ''application/octet-stream'' else ct)\<rparr>"
  by (simp add: SetFileAttachment_Inr map_of_map_assign_same)

section \<open>The properties of the specification\<close>

subsection \<open>C1: what \<open>SetFileAttachment\<close> erases\<close>

text \<open>
  C1 says that \<open>SetFileAttachment(k, uploadFileName, path, contentType)\<close> removes the
  entry stored under \<open>k\<close>, so that \<open>k\<close> then denotes one entry. The source erases the
  entry stored under \<open>upload_file_name\<close> instead. After \<open>SetFormData("k", "v")\<close>, the
  call \<open>SetFileAttachment("k", "a.txt", "/tmp/a", "")\<close> leaves the field \<open>k\<close> in place
  beside the new attachment \<open>k\<close>: two entries under \<open>k\<close>. After
  \<open>SetFormData("a.txt", "v")\<close>, the call \<open>SetFileAttachment("file", "a.txt", "/tmp/a", "")\<close>
  removes the field \<open>a.txt\<close>, which has another key than the attachment.
\<close>

theorem C1_SetFileAttachment_keeps_field:
  "(\<exists>b'. SetFileAttachment ''k'' ''a.txt'' ''/tmp/a'' []
            (SetFormData ''k'' ''v'' (HTTPMultipartBuilder_new (\<lambda>i. i))) = Inr b'
      \<and> form_data_m b' = [(''k'', ''v'')]
      \<and> map fst (file_attachments_m b') = [''k'']
      \<and> entries_under ''k'' (form_data_m b') + entries_under ''k'' (file_attachments_m b') = 2)
   \<and> (\<exists>b'. SetFileAttachment ''file'' ''a.txt'' ''/tmp/a'' []
            (SetFormData ''a.txt'' ''v'' (HTTPMultipartBuilder_new (\<lambda>i. i))) = Inr b'
      \<and> form_data_m b' = []
      \<and> map fst (file_attachments_m b') = [''file''])"
  by (simp add: SetFileAttachment_Inr SetFormData_def EraseKey_def HTTPMultipartBuilder_new_def
      entries_under_def)

subsection \<open>C2: the byte layout of the body\<close>

text \<open>
  C2, as stated, fails: the key and the file name reach the header through a \<open>%s\<close>
  conversion, which stops at the first NUL byte of the string. A field stored under the
  three-byte key \<open>a\<close>, NUL, \<open>b\<close> is emitted under the name \<open>a\<close>, not under its
  escaped key.
\<close>

theorem C2_counterexample:
  "stream_bytes (\<lambda>p. []) (fst (GetBodyStream
       (SetFormData [CHR ''a'', NUL, CHR ''b''] ''v'' (HTTPMultipartBuilder_new (\<lambda>i. 0)))))
     = ''-----MultipartBoundary-00000000000000000000000000000000---'' @ [CR, LF]
       @ ''Content-Disposition: form-data; name='' @ [DQUOTE] @ ''a'' @ [DQUOTE]
       @ [CR, LF, CR, LF] @ ''v'' @ [CR, LF]
       @ ''-----MultipartBoundary-00000000000000000000000000000000-----'' @ [CR, LF]
   \<and> stream_bytes (\<lambda>p. []) (fst (GetBodyStream
       (SetFormData [CHR ''a'', NUL, CHR ''b''] ''v'' (HTTPMultipartBuilder_new (\<lambda>i. 0)))))
     \<noteq> spec_body (\<lambda>p. [])
       (SetFormData [CHR ''a'', NUL, CHR ''b''] ''v'' (HTTPMultipartBuilder_new (\<lambda>i. 0)))"
  by (simp add: stream_bytes_GetBodyStream spec_body_def SetFormData_def EraseKey_def
      HTTPMultipartBuilder_new_def boundary_zero form_data_stream_def spec_field_part_def
      GetFormDataBoundary_def c_str_def EncodeMIMEField_spec spec_escape_def escape_char_def
      NUL_def CR_def LF_def DQUOTE_def PERCENT_def kCRLF_def kBoundaryCRLF_def)

text \<open>
  C2, amended: in every state that satisfies the builder's invariant and in which no key
  and no stored file name holds a NUL byte, the bytes of the produced stream are, for
  each form field in collection order, the segment
  \<open>--{boundary}\r\nContent-Disposition: form-data; name="{escaped-key}"\r\n\r\n{value}\r\n\<close>,
  then for each attachment in collection order the segment
  \<open>--{boundary}\r\nContent-Disposition: form-data; name="{escaped-key}"; filename="{escaped-filename}"\r\nContent-Type: {content-type}\r\n\r\n\<close>
  followed by the file's bytes and \<open>\r\n\<close>, and finally the closing segment
  \<open>--{boundary}--\r\n\<close>.
\<close>

theorem C2_body_layout:
  assumes "builder_ok b" and "nul_free_names b"
  shows "stream_bytes file_bytes (fst (GetBodyStream b)) = spec_body file_bytes b"
proof -
  have bd: "NUL \<notin> set (boundary_m b)"
    using assms(1) by (simp add: builder_ok_def)
  have fields: "stream_bytes file_bytes (form_data_stream (boundary_m b) p)
      = spec_field_part (boundary_m b) p" if "p \<in> set (form_data_m b)" for p
    using that assms(2) bd by (simp add: nul_free_names_def form_data_stream_bytes)
  have atts: "concat (map (stream_bytes file_bytes) (attachment_streams (boundary_m b) p))
      = spec_attachment_part file_bytes (boundary_m b) p" if "p \<in> set (file_attachments_m b)" for p
    using that assms bd
    by (simp add: nul_free_names_def builder_ok_def attachment_ok_def attachment_streams_bytes)
  have "map (\<lambda>p. stream_bytes file_bytes (form_data_stream (boundary_m b) p)) (form_data_m b)
      = map (spec_field_part (boundary_m b)) (form_data_m b)"
    using fields by simp
  moreover have "map (\<lambda>p. concat (map (stream_bytes file_bytes)
        (attachment_streams (boundary_m b) p))) (file_attachments_m b)
      = map (spec_attachment_part file_bytes (boundary_m b)) (file_attachments_m b)"
    using atts by simp
  ultimately show ?thesis
    by (simp only: stream_bytes_GetBodyStream spec_body_def)
qed

text \<open>C2 at a builder with the field \<open>name\<close> and the attachment \<open>file\<close> of three bytes.\<close>

theorem C2_body_layout_witness:
  "builder_ok \<lparr>boundary_m = ''B'', form_data_m = [(''name'', ''value'')],
      file_attachments_m = [(''file'', \<lparr>filename = ''a.txt'', path = ''/tmp/a'',
         content_type = ''application/octet-stream''\<rparr>)]\<rparr>
   \<and> nul_free_names \<lparr>boundary_m = ''B'', form_data_m = [(''name'', ''value'')],
      file_attachments_m = [(''file'', \<lparr>filename = ''a.txt'', path = ''/tmp/a'',
         content_type = ''application/octet-stream''\<rparr>)]\<rparr>
   \<and> stream_bytes (\<lambda>p. ''abc'') (fst (GetBodyStream
        \<lparr>boundary_m = ''B'', form_data_m = [(''name'', ''value'')],
         file_attachments_m = [(''file'', \<lparr>filename = ''a.txt'', path = ''/tmp/a'',
           content_type = ''application/octet-stream''\<rparr>)]\<rparr>))
     = ''--B'' @ kCRLF @ ''Content-Disposition: form-data; name='' @ [DQUOTE] @ ''name''
       @ [DQUOTE] @ kCRLF @ kCRLF @ ''value'' @ kCRLF
       @ ''--B'' @ kCRLF @ ''Content-Disposition: form-data; name='' @ [DQUOTE] @ ''file''
       @ [DQUOTE] @ ''; filename='' @ [DQUOTE] @ ''a.txt'' @ [DQUOTE] @ kCRLF
       @ ''Content-Type: application/octet-stream'' @ kCRLF @ kCRLF @ ''abc'' @ kCRLF
       @ ''--B--'' @ kCRLF"
proof -
  let ?b = "\<lparr>boundary_m = ''B'', form_data_m = [(''name'', ''value'')],
      file_attachments_m = [(''file'', \<lparr>filename = ''a.txt'', path = ''/tmp/a'',
         content_type = ''application/octet-stream''\<rparr>)]\<rparr>"
  have ok: "builder_ok ?b"
    by (simp add: builder_ok_def attachment_ok_def NUL_def CR_def LF_def DQUOTE_def PERCENT_def)
  have nf: "nul_free_names ?b"
    by (simp add: nul_free_names_def NUL_def)
  have "spec_body (\<lambda>p. ''abc'') ?b
     = ''--B'' @ kCRLF @ ''Content-Disposition: form-data; name='' @ [DQUOTE] @ ''name''
       @ [DQUOTE] @ kCRLF @ kCRLF @ ''value'' @ kCRLF
       @ ''--B'' @ kCRLF @ ''Content-Disposition: form-data; name='' @ [DQUOTE] @ ''file''
       @ [DQUOTE] @ ''; filename='' @ [DQUOTE] @ ''a.txt'' @ [DQUOTE] @ kCRLF
       @ ''Content-Type: application/octet-stream'' @ kCRLF @ kCRLF @ ''abc'' @ kCRLF
       @ ''--B--'' @ kCRLF"
    by (simp add: spec_body_def spec_field_part_def spec_attachment_part_def spec_escape_def
        escape_char_def CR_def LF_def DQUOTE_def PERCENT_def)
  with C2_body_layout [OF ok nf, of "\<lambda>p. ''abc''"] ok nf show ?thesis
    by (simp only:)
qed

subsection \<open>C3: the escaping of names and file names\<close>

text \<open>
  C3: \<open>EncodeMIMEField\<close> replaces carriage return, line feed, double quote and percent
  by \<open>%0d\<close>, \<open>%0a\<close>, \<open>%22\<close> and \<open>%25\<close> and leaves every other byte as it is, byte
  by byte over the whole string; the name that \<open>GetFormDataBoundary\<close> writes into the
  \<open>Content-Disposition\<close> line, and the file name that \<open>SetFileAttachment\<close> stores
  and the attachment header writes, hold no carriage return, line feed or double quote,
  and no percent sign other than the one that opens an escape sequence.
\<close>

theorem C3_escaping:
  "EncodeMIMEField s = spec_escape s
   \<and> EncodeMIMEField [CR] = ''%0d'' \<and> EncodeMIMEField [LF] = ''%0a''
   \<and> EncodeMIMEField [DQUOTE] = ''%22'' \<and> EncodeMIMEField [PERCENT] = ''%25''
   \<and> (c \<noteq> CR \<and> c \<noteq> LF \<and> c \<noteq> DQUOTE \<and> c \<noteq> PERCENT \<longrightarrow> EncodeMIMEField [c] = [c])
   \<and> EncodeMIMEField (s @ t) = EncodeMIMEField s @ EncodeMIMEField t
   \<and> GetFormDataBoundary bd s
       = ''--'' @ c_str bd @ kCRLF @ ''Content-Disposition: form-data; name='' @ [DQUOTE]
         @ c_str (EncodeMIMEField s) @ [DQUOTE]
   \<and> unescaped_free (c_str (EncodeMIMEField s))
   \<and> CR \<notin> set (c_str (EncodeMIMEField s)) \<and> LF \<notin> set (c_str (EncodeMIMEField s))
   \<and> DQUOTE \<notin> set (c_str (EncodeMIMEField s))
   \<and> (\<forall>b'. SetFileAttachment key s file_path ct b = Inr b' \<longrightarrow>
        (\<exists>a. map_of (file_attachments_m b') key = Some a
           \<and> filename a = EncodeMIMEField s
           \<and> attachment_header bd (key, a)
               = GetFormDataBoundary bd key @ ''; filename='' @ [DQUOTE]
                 @ c_str (EncodeMIMEField s) @ [DQUOTE] @ kCRLF
                 @ ''Content-Type: '' @ c_str (content_type a) @ kBoundaryCRLF))"
proof -
  have spec: "EncodeMIMEField s = spec_escape s"
    by (rule EncodeMIMEField_spec)
  have cr: "EncodeMIMEField [CR] = ''%0d''" and lf: "EncodeMIMEField [LF] = ''%0a''"
    and dq: "EncodeMIMEField [DQUOTE] = ''%22''" and pc: "EncodeMIMEField [PERCENT] = ''%25''"
    using special_distinct by (simp_all add: EncodeMIMEField_single escape_char_def)
  have other: "c \<noteq> CR \<and> c \<noteq> LF \<and> c \<noteq> DQUOTE \<and> c \<noteq> PERCENT \<longrightarrow> EncodeMIMEField [c] = [c]"
    by (simp add: EncodeMIMEField_single escape_char_def)
  have app: "EncodeMIMEField (s @ t) = EncodeMIMEField s @ EncodeMIMEField t"
    by (rule EncodeMIMEField_append)
  have line: "GetFormDataBoundary bd s
       = ''--'' @ c_str bd @ kCRLF @ ''Content-Disposition: form-data; name='' @ [DQUOTE]
         @ c_str (EncodeMIMEField s) @ [DQUOTE]"
    by (simp add: GetFormDataBoundary_def)
  have clean: "unescaped_free (c_str (EncodeMIMEField s))"
    and ncr: "CR \<notin> set (c_str (EncodeMIMEField s))"
    and nlf: "LF \<notin> set (c_str (EncodeMIMEField s))"
    and ndq: "DQUOTE \<notin> set (c_str (EncodeMIMEField s))"
    using emitted_name_clean [of s] by simp_all
  have "\<exists>a. map_of (file_attachments_m b') key = Some a
           \<and> filename a = EncodeMIMEField s
           \<and> attachment_header bd (key, a)
               = GetFormDataBoundary bd key @ ''; filename='' @ [DQUOTE]
                 @ c_str (EncodeMIMEField s) @ [DQUOTE] @ kCRLF
                 @ ''Content-Type: '' @ c_str (content_type a) @ kBoundaryCRLF"
    if "SetFileAttachment key s file_path ct b = Inr b'" for b'
    using SetFileAttachment_stored [OF that] by (simp add: attachment_header_def)
  then have att: "\<forall>b'. SetFileAttachment key s file_path ct b = Inr b' \<longrightarrow>
        (\<exists>a. map_of (file_attachments_m b') key = Some a
           \<and> filename a = EncodeMIMEField s
           \<and> attachment_header bd (key, a)
               = GetFormDataBoundary bd key @ ''; filename='' @ [DQUOTE]
                 @ c_str (EncodeMIMEField s) @ [DQUOTE] @ kCRLF
                 @ ''Content-Type: '' @ c_str (content_type a) @ kBoundaryCRLF)"
    by blast
  from spec cr lf dq pc other app line clean ncr nlf ndq att show ?thesis
    by (intro conjI)
qed

text \<open>C3 at the name \<open>a%b\<close> followed by carriage return, line feed and double quote.\<close>

theorem C3_escaping_witness:
  "EncodeMIMEField [CHR ''a'', CHR ''%'', CHR ''b'', CR, LF, DQUOTE] = ''a%25b%0d%0a%22''
   \<and> EncodeMIMEField [CHR ''x''] = ''x''
   \<and> GetFormDataBoundary ''B'' [CHR ''a'', CHR ''%'', CHR ''b'', CR, LF, DQUOTE]
       = ''--B'' @ [CR, LF] @ ''Content-Disposition: form-data; name='' @ [DQUOTE]
         @ ''a%25b%0d%0a%22'' @ [DQUOTE]
   \<and> (\<exists>b' a. SetFileAttachment ''file'' [CHR ''a'', CHR ''%'', CHR ''b'', CR, LF, DQUOTE] ''/tmp/a'' []
                 (HTTPMultipartBuilder_new (\<lambda>i. i)) = Inr b'
          \<and> map_of (file_attachments_m b') ''file'' = Some a
          \<and> filename a = ''a%25b%0d%0a%22'')"
proof -
  let ?s = "[CHR ''a'', CHR ''%'', CHR ''b'', CR, LF, DQUOTE]"
  let ?new = "HTTPMultipartBuilder_new (\<lambda>i. i)"
  note T = C3_escaping [of ?s "CHR ''x''" "[]" "''B''" "''file''" "''/tmp/a''" "[]" ?new]
  have x: "CHR ''x'' \<noteq> CR \<and> CHR ''x'' \<noteq> LF \<and> CHR ''x'' \<noteq> DQUOTE \<and> CHR ''x'' \<noteq> PERCENT"
    by (simp add: CR_def LF_def DQUOTE_def PERCENT_def)
  have ev: "spec_escape ?s = ''a%25b%0d%0a%22''"
    by (simp add: spec_escape_def escape_char_def PERCENT_def CR_def LF_def DQUOTE_def)
  have nonul: "c_str ''B'' = ''B''" "c_str ''a%25b%0d%0a%22'' = ''a%25b%0d%0a%22''"
    by (simp_all add: c_str_def NUL_def)
  have 1: "EncodeMIMEField ?s = ''a%25b%0d%0a%22''"
    using T ev by simp
  have 2: "EncodeMIMEField [CHR ''x''] = ''x''"
    using T x by blast
  have "GetFormDataBoundary ''B'' ?s
       = ''--'' @ c_str ''B'' @ kCRLF @ ''Content-Disposition: form-data; name='' @ [DQUOTE]
         @ c_str (EncodeMIMEField ?s) @ [DQUOTE]"
    using T by blast
  then have 3: "GetFormDataBoundary ''B'' ?s
       = ''--B'' @ [CR, LF] @ ''Content-Disposition: form-data; name='' @ [DQUOTE]
         @ ''a%25b%0d%0a%22'' @ [DQUOTE]"
    by (simp add: 1 nonul kCRLF_def)
  obtain b' where b': "SetFileAttachment ''file'' ?s ''/tmp/a'' [] ?new = Inr b'"
    by (simp add: SetFileAttachment_Inr)
  have "\<forall>b'. SetFileAttachment ''file'' ?s ''/tmp/a'' [] ?new = Inr b' \<longrightarrow>
      (\<exists>a. map_of (file_attachments_m b') ''file'' = Some a \<and> filename a = EncodeMIMEField ?s)"
    using T by blast
  with b' obtain a where "map_of (file_attachments_m b') ''file'' = Some a"
      and "filename a = EncodeMIMEField ?s"
    by blast
  with b' 1 have 4: "\<exists>b' a. SetFileAttachment ''file'' ?s ''/tmp/a'' [] ?new = Inr b'
          \<and> map_of (file_attachments_m b') ''file'' = Some a
          \<and> filename a = ''a%25b%0d%0a%22''"
    by (intro exI [of _ b'] exI [of _ a]) simp
  from 1 2 3 4 show ?thesis by (intro conjI)
qed

subsection \<open>C4: the content type of an attachment\<close>

text \<open>
  C4: for every call \<open>SetFileAttachment(key, uploadFileName, path, contentType)\<close>, an
  empty \<open>contentType\<close> stores \<open>application/octet-stream\<close>; a non-empty one with a
  character outside \<open>[A-Za-z0-9/._+-]\<close> fails the fatal check; a non-empty one with all
  characters inside that set is stored as it is.
\<close>

theorem C4_content_type:
  "(ct = [] \<longrightarrow>
      (\<exists>b'. SetFileAttachment key upload_file_name file_path ct b = Inr b'
         \<and> map_option content_type (map_of (file_attachments_m b') key)
             = Some ''application/octet-stream''))
   \<and> (ct \<noteq> [] \<and> (\<exists>c \<in> set ct. c \<notin> set safe_alphabet) \<longrightarrow>
        SetFileAttachment key upload_file_name file_path ct b = Inl CheckFailed)
   \<and> (ct \<noteq> [] \<and> (\<forall>c \<in> set ct. c \<in> set safe_alphabet) \<longrightarrow>
        (\<exists>b'. SetFileAttachment key upload_file_name file_path ct b = Inr b'
           \<and> map_option content_type (map_of (file_attachments_m b') key) = Some ct))"
proof (intro conjI impI)
  assume "ct = []"
  then show "\<exists>b'. SetFileAttachment key upload_file_name file_path ct b = Inr b'
         \<and> map_option content_type (map_of (file_attachments_m b') key)
             = Some ''application/octet-stream''"
    by (simp add: SetFileAttachment_Inr map_of_map_assign_same)
next
  assume "ct \<noteq> [] \<and> (\<exists>c \<in> set ct. c \<notin> set safe_alphabet)"
  then have "\<exists>c \<in> set ct. \<not> safe_mime_char c"
    by (simp add: safe_mime_char_iff)
  then show "SetFileAttachment key upload_file_name file_path ct b = Inl CheckFailed"
    by (simp add: SetFileAttachment_Inl)
next
  assume "ct \<noteq> [] \<and> (\<forall>c \<in> set ct. c \<in> set safe_alphabet)"
  then have "ct \<noteq> []" and "\<forall>c \<in> set ct. safe_mime_char c"
    by (simp_all add: safe_mime_char_iff)
  then show "\<exists>b'. SetFileAttachment key upload_file_name file_path ct b = Inr b'
           \<and> map_option content_type (map_of (file_attachments_m b') key) = Some ct"
    by (simp add: SetFileAttachment_Inr map_of_map_assign_same)
qed

text \<open>C4 at an empty content type, at \<open>text/pl ain\<close> and at \<open>text/plain\<close>.\<close>

theorem C4_content_type_witness:
  "(\<exists>b'. SetFileAttachment ''file'' ''a.txt'' ''/tmp/a'' [] (HTTPMultipartBuilder_new (\<lambda>i. i)) = Inr b'
         \<and> map_option content_type (map_of (file_attachments_m b') ''file'')
             = Some ''application/octet-stream'')
   \<and> SetFileAttachment ''file'' ''a.txt'' ''/tmp/a'' ''text/pl ain'' (HTTPMultipartBuilder_new (\<lambda>i. i))
       = Inl CheckFailed
   \<and> (\<exists>b'. SetFileAttachment ''file'' ''a.txt'' ''/tmp/a'' ''text/plain'' (HTTPMultipartBuilder_new (\<lambda>i. i)) = Inr b'
         \<and> map_option content_type (map_of (file_attachments_m b') ''file'') = Some ''text/plain'')"
  using C4_content_type [of "[]" "''file''" "''a.txt''" "''/tmp/a''" "HTTPMultipartBuilder_new (\<lambda>i. i)"]
    C4_content_type [of "''text/pl ain''" "''file''" "''a.txt''" "''/tmp/a''" "HTTPMultipartBuilder_new (\<lambda>i. i)"]
    C4_content_type [of "''text/plain''" "''file''" "''a.txt''" "''/tmp/a''" "HTTPMultipartBuilder_new (\<lambda>i. i)"]
  by (simp add: safe_alphabet_def)

subsection \<open>C5: the boundary\<close>

text \<open>
  C5: when each draw is below 62, as the random generator promises, the boundary is
  \<open>---MultipartBoundary-\<close>, then 32 characters, then \<open>---\<close>. Character \<open>index\<close> is
  the entry of \<open>kCharacters\<close> at the draw of iteration \<open>index\<close>; \<open>kCharacters\<close> holds
  each of the 62 characters \<open>[0-9A-Za-z]\<close> once, so a uniform draw is a uniform
  character. The constructor stores this string, and \<open>SetFormData\<close>,
  \<open>SetFileAttachment\<close> and \<open>GetBodyStream\<close> leave it as it is.
\<close>

theorem C5_boundary:
  assumes "\<forall>index<32. random_value index < 62"
  shows "(\<exists>mid. GenerateBoundaryString random_value = ''---MultipartBoundary-'' @ mid @ ''---''
            \<and> length mid = 32 \<and> (\<forall>c \<in> set mid. alphanumeric c)
            \<and> mid = map (\<lambda>index. kCharacters ! random_value index) [0..<32])
     \<and> length kCharacters = 62 \<and> distinct kCharacters
     \<and> (\<forall>c. c \<in> set kCharacters \<longleftrightarrow> alphanumeric c)
     \<and> boundary_m (HTTPMultipartBuilder_new random_value) = GenerateBoundaryString random_value
     \<and> boundary_m (SetFormData key val b) = boundary_m b
     \<and> (\<forall>b'. SetFileAttachment key2 upload_file_name file_path ct b = Inr b'
            \<longrightarrow> boundary_m b' = boundary_m b)
     \<and> boundary_m (snd (GetBodyStream b)) = boundary_m b"
proof -
  let ?mid = "map (\<lambda>index. kCharacters ! random_value index) [0..<32]"
  have "kCharacters ! random_value i \<in> set kCharacters" if "i < 32" for i
    using assms that by (simp add: length_kCharacters)
  then have "\<forall>c \<in> set ?mid. alphanumeric c"
    by (auto simp add: kCharacters_alphanumeric)
  then have "GenerateBoundaryString random_value = ''---MultipartBoundary-'' @ ?mid @ ''---''
      \<and> length ?mid = 32 \<and> (\<forall>c \<in> set ?mid. alphanumeric c) \<and> ?mid = ?mid"
    by (simp add: GenerateBoundaryString_eq)
  then have first: "\<exists>mid. GenerateBoundaryString random_value = ''---MultipartBoundary-'' @ mid @ ''---''
            \<and> length mid = 32 \<and> (\<forall>c \<in> set mid. alphanumeric c)
            \<and> mid = map (\<lambda>index. kCharacters ! random_value index) [0..<32]"
    by blast
  show ?thesis
    using first
    by (simp add: length_kCharacters distinct_kCharacters kCharacters_alphanumeric
        boundary_m_SetFormData boundary_m_SetFileAttachment GetBodyStream_eq
        HTTPMultipartBuilder_new_def)
qed

text \<open>C5 at the draws \<open>0, 1, \<dots>, 31\<close>.\<close>

theorem C5_boundary_witness:
  "GenerateBoundaryString (\<lambda>i. i) = ''---MultipartBoundary-0123456789ABCDEFGHIJKLMNOPQRSTUV---''
   \<and> boundary_m (HTTPMultipartBuilder_new (\<lambda>i. i))
       = ''---MultipartBoundary-0123456789ABCDEFGHIJKLMNOPQRSTUV---''
   \<and> boundary_m (SetFormData ''name'' ''value'' (HTTPMultipartBuilder_new (\<lambda>i. i)))
       = ''---MultipartBoundary-0123456789ABCDEFGHIJKLMNOPQRSTUV---''
   \<and> (\<exists>b'. SetFileAttachment ''file'' ''a.txt'' ''/tmp/a'' [] (HTTPMultipartBuilder_new (\<lambda>i. i)) = Inr b'
        \<and> boundary_m b' = ''---MultipartBoundary-0123456789ABCDEFGHIJKLMNOPQRSTUV---'')
   \<and> boundary_m (snd (GetBodyStream (HTTPMultipartBuilder_new (\<lambda>i. i))))
       = ''---MultipartBoundary-0123456789ABCDEFGHIJKLMNOPQRSTUV---''"
proof -
  let ?new = "HTTPMultipartBuilder_new (\<lambda>i. i)"
  let ?bd = "''---MultipartBoundary-0123456789ABCDEFGHIJKLMNOPQRSTUV---''"
  have h: "\<forall>index<32. (\<lambda>i::nat. i) index < 62" by simp
  note T = C5_boundary [OF h, of "''name''" "''value''" ?new "''file''" "''a.txt''" "''/tmp/a''" "[]"]
  have nb: "boundary_m ?new = GenerateBoundaryString (\<lambda>i. i)"
    using T by blast
  have sf: "boundary_m (SetFormData ''name'' ''value'' ?new) = boundary_m ?new"
    using T by blast
  have fa: "\<forall>b'. SetFileAttachment ''file'' ''a.txt'' ''/tmp/a'' [] ?new = Inr b'
      \<longrightarrow> boundary_m b' = boundary_m ?new"
    using T by blast
  have gb: "boundary_m (snd (GetBodyStream ?new)) = boundary_m ?new"
    using T by blast
  obtain b' where b': "SetFileAttachment ''file'' ''a.txt'' ''/tmp/a'' [] ?new = Inr b'"
    by (simp add: SetFileAttachment_Inr)
  with fa have fb: "boundary_m b' = boundary_m ?new" by blast
  have 1: "GenerateBoundaryString (\<lambda>i. i) = ?bd" by (rule boundary_ident)
  have 2: "boundary_m ?new = ?bd" using nb 1 by (rule trans)
  have 3: "boundary_m (SetFormData ''name'' ''value'' ?new) = ?bd" using sf 2 by (rule trans)
  have 4: "\<exists>b'. SetFileAttachment ''file'' ''a.txt'' ''/tmp/a'' [] ?new = Inr b' \<and> boundary_m b' = ?bd"
    using b' fb 2 by (intro exI [of _ b'] conjI) (assumption, rule trans)
  have 5: "boundary_m (snd (GetBodyStream ?new)) = ?bd" using gb 2 by (rule trans)
  from 1 2 3 4 5 show ?thesis by (intro conjI)
qed

subsection \<open>C6: \<open>SetFormData\<close>\<close>

text \<open>
  C6: \<open>SetFormData(key, value)\<close> first erases \<open>key\<close> from both collections and then
  stores \<open>value\<close>, unchanged, as the field of \<open>key\<close>: afterwards \<open>key\<close> has one field
  entry with that value and no attachment entry, the other keys are as before, and the
  field's segment of the body carries \<open>value\<close> byte for byte. The operation has no
  failing branch: it returns a builder for every input, and the builder satisfies the
  invariant again.
\<close>

theorem C6_SetFormData:
  assumes "builder_ok b"
  shows "key \<notin> keys_of (form_data_m (EraseKey key b))
     \<and> key \<notin> keys_of (file_attachments_m (EraseKey key b))
     \<and> SetFormData key val b
         = (EraseKey key b)\<lparr>form_data_m := map_assign key val (form_data_m (EraseKey key b))\<rparr>
     \<and> map_of (form_data_m (SetFormData key val b)) key = Some val
     \<and> entries_under key (form_data_m (SetFormData key val b)) = 1
     \<and> entries_under key (file_attachments_m (SetFormData key val b)) = 0
     \<and> (\<forall>k. k \<noteq> key \<longrightarrow>
           map_of (form_data_m (SetFormData key val b)) k = map_of (form_data_m b) k
         \<and> map_of (file_attachments_m (SetFormData key val b)) k = map_of (file_attachments_m b) k)
     \<and> builder_ok (SetFormData key val b)
     \<and> StringHTTPBodyStream (GetFormDataBoundary (boundary_m b) key @ kBoundaryCRLF @ val @ kCRLF)
         \<in> set (segments (fst (GetBodyStream (SetFormData key val b))))"
proof -
  let ?b1 = "EraseKey key b"
  let ?b2 = "SetFormData key val b"
  have ok1: "builder_ok ?b1" using assms by (rule builder_ok_EraseKey)
  have ok2: "builder_ok ?b2" using assms by (rule builder_ok_SetFormData)
  have gone: "key \<notin> keys_of (form_data_m ?b1) \<and> key \<notin> keys_of (file_attachments_m ?b1)"
    using assms by (rule keys_of_EraseKey)
  have eq: "?b2 = ?b1\<lparr>form_data_m := map_assign key val (form_data_m ?b1)\<rparr>"
    by (simp add: SetFormData_def Let_def)
  have fd: "form_data_m ?b2 = map_assign key val (form_data_m ?b1)"
    and fa: "file_attachments_m ?b2 = file_attachments_m ?b1"
    and bd: "boundary_m ?b2 = boundary_m b"
    by (simp_all add: eq) (simp add: EraseKey_def)
  have look: "map_of (form_data_m ?b2) key = Some val"
    by (simp add: fd map_of_map_assign_same)
  have one: "entries_under key (form_data_m ?b2) = 1"
    using ok2 by (simp add: builder_ok_def entries_under_map_ok) (simp add: fd keys_of_map_assign)
  have none: "entries_under key (file_attachments_m ?b2) = 0"
    using ok2 gone by (simp add: builder_ok_def entries_under_map_ok) (simp add: fa)
  have other: "map_of (form_data_m ?b2) k = map_of (form_data_m b) k
      \<and> map_of (file_attachments_m ?b2) k = map_of (file_attachments_m b) k" if "k \<noteq> key" for k
    using that
    by (simp add: fd fa map_of_map_assign_other) (simp add: EraseKey_def map_of_map_erase_other)
  have "(key, val) \<in> set (form_data_m ?b2)"
    using look by (rule map_of_SomeD)
  then have "form_data_stream (boundary_m ?b2) (key, val)
      \<in> set (map (form_data_stream (boundary_m ?b2)) (form_data_m ?b2))"
    by (simp only: set_map) (rule imageI)
  then have emitted: "StringHTTPBodyStream
        (GetFormDataBoundary (boundary_m b) key @ kBoundaryCRLF @ val @ kCRLF)
      \<in> set (segments (fst (GetBodyStream ?b2)))"
    unfolding segments_GetBodyStream by (simp add: form_data_stream_def bd)
  from gone eq look one none other ok2 emitted show ?thesis by blast
qed

text \<open>C6 at a builder that holds an attachment under the key being set.\<close>

theorem C6_SetFormData_witness:
  "builder_ok \<lparr>boundary_m = ''B'', form_data_m = [(''a'', ''1'')],
      file_attachments_m = [(''k'', \<lparr>filename = ''a.txt'', path = ''/tmp/a'',
         content_type = ''text/plain''\<rparr>)]\<rparr>
   \<and> SetFormData ''k'' ''v'' \<lparr>boundary_m = ''B'', form_data_m = [(''a'', ''1'')],
      file_attachments_m = [(''k'', \<lparr>filename = ''a.txt'', path = ''/tmp/a'',
         content_type = ''text/plain''\<rparr>)]\<rparr>
     = \<lparr>boundary_m = ''B'', form_data_m = [(''a'', ''1''), (''k'', ''v'')], file_attachments_m = []\<rparr>
   \<and> map_of (form_data_m (SetFormData ''k'' ''v'' \<lparr>boundary_m = ''B'', form_data_m = [(''a'', ''1'')],
      file_attachments_m = [(''k'', \<lparr>filename = ''a.txt'', path = ''/tmp/a'',
         content_type = ''text/plain''\<rparr>)]\<rparr>)) ''k'' = Some ''v''
   \<and> entries_under ''k'' (file_attachments_m (SetFormData ''k'' ''v''
      \<lparr>boundary_m = ''B'', form_data_m = [(''a'', ''1'')],
      file_attachments_m = [(''k'', \<lparr>filename = ''a.txt'', path = ''/tmp/a'',
         content_type = ''text/plain''\<rparr>)]\<rparr>)) = 0"
proof -
  let ?b = "\<lparr>boundary_m = ''B'', form_data_m = [(''a'', ''1'')],
      file_attachments_m = [(''k'', \<lparr>filename = ''a.txt'', path = ''/tmp/a'',
         content_type = ''text/plain''\<rparr>)]\<rparr>"
  have ok: "builder_ok ?b"
    by (simp add: builder_ok_def attachment_ok_def NUL_def CR_def LF_def DQUOTE_def PERCENT_def)
  note T = C6_SetFormData [OF ok, of "''k''" "''v''"]
  have look: "map_of (form_data_m (SetFormData ''k'' ''v'' ?b)) ''k'' = Some ''v''"
    using T by blast
  have none: "entries_under ''k'' (file_attachments_m (SetFormData ''k'' ''v'' ?b)) = 0"
    using T by blast
  have val: "SetFormData ''k'' ''v'' ?b
      = \<lparr>boundary_m = ''B'', form_data_m = [(''a'', ''1''), (''k'', ''v'')], file_attachments_m = []\<rparr>"
    by (simp add: SetFormData_def EraseKey_def)
  from ok val look none show ?thesis by (intro conjI)
qed

subsection \<open>C7: the number of parts\<close>

text \<open>
  C7: the segments of the produced stream that open with the delimiter line
  \<open>--{boundary}\r\n\<close> are as many as the fields and attachments together, and one
  segment, the last, is the closing segment \<open>--{boundary}--\r\n\<close>. This holds in every
  state that satisfies the builder's invariant, so in particular in those whose keys do
  not conflict.
\<close>

theorem C7_part_count:
  assumes "builder_ok b"
  shows "length (filter (is_part_segment (boundary_m b)) (segments (fst (GetBodyStream b))))
       = length (form_data_m b) + length (file_attachments_m b)
     \<and> length (filter (is_closing_segment (boundary_m b)) (segments (fst (GetBodyStream b)))) = 1
     \<and> last (segments (fst (GetBodyStream b)))
         = StringHTTPBodyStream (''--'' @ boundary_m b @ ''--'' @ kCRLF)
     \<and> length (segments (fst (GetBodyStream b)))
         = length (form_data_m b) + 3 * length (file_attachments_m b) + 1"
proof -
  let ?bd = "boundary_m b"
  have nul: "NUL \<notin> set ?bd" using assms by (simp add: builder_ok_def)
  have f1: "filter (is_part_segment ?bd) (map (form_data_stream ?bd) (form_data_m b))
      = map (form_data_stream ?bd) (form_data_m b)"
    using nul by (simp add: is_part_form_data_stream)
  have f2: "filter (is_closing_segment ?bd) (map (form_data_stream ?bd) (form_data_m b)) = []"
    using nul by (simp add: not_closing_form_data_stream)
  have a1: "length (filter (is_part_segment ?bd)
        (concat (map (attachment_streams ?bd) (file_attachments_m b))))
      = 1 * length (file_attachments_m b)"
    using nul by (intro length_filter_concat) (simp add: filter_part_attachment_streams)
  have a2: "length (filter (is_closing_segment ?bd)
        (concat (map (attachment_streams ?bd) (file_attachments_m b))))
      = 0 * length (file_attachments_m b)"
    using nul by (intro length_filter_concat) (simp add: filter_closing_attachment_streams)
  have a3: "length (concat (map (attachment_streams ?bd) (file_attachments_m b)))
      = 3 * length (file_attachments_m b)"
    using length_filter_concat [of "file_attachments_m b" "\<lambda>s. True" "attachment_streams ?bd" 3]
    by (simp add: attachment_streams_def)
  have c1: "\<not> is_part_segment ?bd (StringHTTPBodyStream (''--'' @ ?bd @ ''--'' @ kCRLF))"
    by (rule not_part_closing)
  have c2: "is_closing_segment ?bd (StringHTTPBodyStream (''--'' @ ?bd @ ''--'' @ kCRLF))"
    by (simp add: is_closing_segment_def)
  have parts: "length (filter (is_part_segment ?bd) (segments (fst (GetBodyStream b))))
       = length (form_data_m b) + length (file_attachments_m b)"
    unfolding segments_GetBodyStream filter_append length_append f1 a1 using c1 by simp
  have closing: "length (filter (is_closing_segment ?bd) (segments (fst (GetBodyStream b)))) = 1"
    unfolding segments_GetBodyStream filter_append length_append f2 a2 using c2 by simp
  have lst: "last (segments (fst (GetBodyStream b)))
         = StringHTTPBodyStream (''--'' @ ?bd @ ''--'' @ kCRLF)"
    unfolding segments_GetBodyStream by simp
  have len: "length (segments (fst (GetBodyStream b)))
         = length (form_data_m b) + 3 * length (file_attachments_m b) + 1"
    unfolding segments_GetBodyStream length_append a3 by simp
  from parts closing lst len show ?thesis by (intro conjI)
qed

text \<open>C7 at a builder with two fields and one attachment.\<close>

theorem C7_part_count_witness:
  "builder_ok \<lparr>boundary_m = ''B'', form_data_m = [(''a'', ''1''), (''b'', ''2'')],
      file_attachments_m = [(''file'', \<lparr>filename = ''a.txt'', path = ''/tmp/a'',
         content_type = ''text/plain''\<rparr>)]\<rparr>
   \<and> length (filter (is_part_segment ''B'') (segments (fst (GetBodyStream
        \<lparr>boundary_m = ''B'', form_data_m = [(''a'', ''1''), (''b'', ''2'')],
         file_attachments_m = [(''file'', \<lparr>filename = ''a.txt'', path = ''/tmp/a'',
           content_type = ''text/plain''\<rparr>)]\<rparr>)))) = 3
   \<and> length (filter (is_closing_segment ''B'') (segments (fst (GetBodyStream
        \<lparr>boundary_m = ''B'', form_data_m = [(''a'', ''1''), (''b'', ''2'')],
         file_attachments_m = [(''file'', \<lparr>filename = ''a.txt'', path = ''/tmp/a'',
           content_type = ''text/plain''\<rparr>)]\<rparr>)))) = 1
   \<and> length (segments (fst (GetBodyStream
        \<lparr>boundary_m = ''B'', form_data_m = [(''a'', ''1''), (''b'', ''2'')],
         file_attachments_m = [(''file'', \<lparr>filename = ''a.txt'', path = ''/tmp/a'',
           content_type = ''text/plain''\<rparr>)]\<rparr>))) = 6"
proof -
  let ?b = "\<lparr>boundary_m = ''B'', form_data_m = [(''a'', ''1''), (''b'', ''2'')],
      file_attachments_m = [(''file'', \<lparr>filename = ''a.txt'', path = ''/tmp/a'',
         content_type = ''text/plain''\<rparr>)]\<rparr>"
  have ok: "builder_ok ?b"
    by (simp add: builder_ok_def attachment_ok_def NUL_def CR_def LF_def DQUOTE_def PERCENT_def)
  show ?thesis
    using C7_part_count [OF ok] ok by simp
qed

subsection \<open>C8: the body of an empty builder\<close>

text \<open>
  C8: for a builder with no fields and no attachments, the whole content of the produced
  stream is \<open>--{boundary}--\r\n\<close>.
\<close>

theorem C8_empty_builder:
  "form_data_m b = [] \<Longrightarrow> file_attachments_m b = [] \<Longrightarrow>
   stream_bytes file_bytes (fst (GetBodyStream b)) = ''--'' @ boundary_m b @ ''--'' @ kCRLF"
  by (simp add: stream_bytes_GetBodyStream)

text \<open>C8 at a freshly constructed builder.\<close>

theorem C8_empty_builder_witness:
  "form_data_m (HTTPMultipartBuilder_new (\<lambda>i. i)) = []
   \<and> file_attachments_m (HTTPMultipartBuilder_new (\<lambda>i. i)) = []
   \<and> stream_bytes (\<lambda>p. ''abc'') (fst (GetBodyStream (HTTPMultipartBuilder_new (\<lambda>i. i))))
     = ''-----MultipartBoundary-0123456789ABCDEFGHIJKLMNOPQRSTUV-----'' @ [CR, LF]"
proof -
  have f: "form_data_m (HTTPMultipartBuilder_new (\<lambda>i. i)) = []"
    and a: "file_attachments_m (HTTPMultipartBuilder_new (\<lambda>i. i)) = []"
    by (simp_all add: HTTPMultipartBuilder_new_def)
  have bd: "boundary_m (HTTPMultipartBuilder_new (\<lambda>i. i))
      = ''---MultipartBoundary-0123456789ABCDEFGHIJKLMNOPQRSTUV---''"
    by (simp add: HTTPMultipartBuilder_new_def boundary_ident)
  show ?thesis
    using C8_empty_builder [OF f a, of "\<lambda>p. ''abc''"] f a by (simp add: bd kCRLF_def)
qed

subsection \<open>C9: the escaping is injective\<close>

text \<open>
  C9: for all strings \<open>s1\<close> and \<open>s2\<close>, if \<open>EncodeMIMEField(s1) = EncodeMIMEField(s2)\<close>
  then \<open>s1 = s2\<close>.
\<close>

theorem C9_EncodeMIMEField_injective:
  "EncodeMIMEField s1 = EncodeMIMEField s2 \<Longrightarrow> s1 = s2"
  by (simp add: EncodeMIMEField_spec spec_escape_inj)

text \<open>C9 at the string \<open>a%b"\<close>.\<close>

theorem C9_EncodeMIMEField_injective_witness:
  "EncodeMIMEField (''a%b'' @ [DQUOTE]) = EncodeMIMEField [CHR ''a'', PERCENT, CHR ''b'', CHR 0x22]
   \<and> ''a%b'' @ [DQUOTE] = [CHR ''a'', PERCENT, CHR ''b'', CHR 0x22]"
proof -
  have h: "EncodeMIMEField (''a%b'' @ [DQUOTE]) = EncodeMIMEField [CHR ''a'', PERCENT, CHR ''b'', CHR 0x22]"
    by (simp add: DQUOTE_def PERCENT_def)
  from C9_EncodeMIMEField_injective [OF h] h show ?thesis by (simp only:)
qed

subsection \<open>C10: producing the stream leaves the builder as it is\<close>

text \<open>
  C10: \<open>GetBodyStream\<close> returns the builder unchanged (fields, attachments and boundary),
  so a second call on it produces the same stream with the same bytes.
\<close>

theorem C10_GetBodyStream_frame:
  "snd (GetBodyStream b) = b
   \<and> form_data_m (snd (GetBodyStream b)) = form_data_m b
   \<and> file_attachments_m (snd (GetBodyStream b)) = file_attachments_m b
   \<and> boundary_m (snd (GetBodyStream b)) = boundary_m b
   \<and> fst (GetBodyStream (snd (GetBodyStream b))) = fst (GetBodyStream b)
   \<and> stream_bytes file_bytes (fst (GetBodyStream (snd (GetBodyStream b))))
     = stream_bytes file_bytes (fst (GetBodyStream b))"
  by (simp add: GetBodyStream_eq)

end
